theory Spec2Isabelle
  imports Complex_Main
begin

section \<open>Euler angles and quaternions: the conversion functions of rotation\_converter.py\<close>

text \<open>
  The source computes on IEEE doubles through numpy. The embedding keeps the structure of
  the two conversion functions and every numpy call in them, over exact real arithmetic
  extended by one extra value \<open>NaN\<close>: a number is either a finite real or numpy's
  \<open>nan\<close>. numpy does not raise on an invalid floating-point operation (it warns and
  yields \<open>nan\<close>), so no function below has an error branch: every call returns.

  Rounding, overflow, underflow and the sign of zero are not part of the arithmetic below.
  The doubles of the code agree with it up to rounding error, except in three places:
  \<^item> the squared norm inside \<open>np.linalg.norm\<close> underflows to 0 or overflows to infinity
    on components of extreme magnitude (about 1e-162 and 1e154);
  \<^item> a rounding error decides the test of line 71 when \<open>|t0|\<close> is within rounding of
    \<open>1 - 1e-6\<close>;
  \<^item> a rounding error, or a negative zero, decides the side of the branch cut of
    \<open>arctan2\<close> when its first argument is within rounding of 0 and its second is
    negative.
  A theorem below that is stated for every input of a domain therefore bounds the norm and
  keeps a margin from the threshold and from the branch cut. The double-precision sum that
  a caller computes is modelled apart, by \<open>float64_add\<close>.
\<close>

subsection \<open>numpy scalars\<close>

datatype npfloat = Fin real | NaN

fun lift1 :: "(real \<Rightarrow> real) \<Rightarrow> npfloat \<Rightarrow> npfloat" where
  "lift1 f (Fin a) = Fin (f a)"
| "lift1 f NaN = NaN"

fun lift2 :: "(real \<Rightarrow> real \<Rightarrow> real) \<Rightarrow> npfloat \<Rightarrow> npfloat \<Rightarrow> npfloat" where
  "lift2 f (Fin a) (Fin b) = Fin (f a b)"
| "lift2 f _ _ = NaN"

definition np_add :: "npfloat \<Rightarrow> npfloat \<Rightarrow> npfloat" where
  "np_add = lift2 (+)"

definition np_sub :: "npfloat \<Rightarrow> npfloat \<Rightarrow> npfloat" where
  "np_sub = lift2 (-)"

definition np_mul :: "npfloat \<Rightarrow> npfloat \<Rightarrow> npfloat" where
  "np_mul = lift2 (*)"

definition np_cos :: "npfloat \<Rightarrow> npfloat" where
  "np_cos = lift1 cos"

definition np_sin :: "npfloat \<Rightarrow> npfloat" where
  "np_sin = lift1 sin"

definition np_abs :: "npfloat \<Rightarrow> npfloat" where
  "np_abs = lift1 abs"

text \<open>\<open>np.sign\<close>: -1, 0 or 1 on a number, \<open>nan\<close> on \<open>nan\<close>.\<close>

definition np_sign :: "npfloat \<Rightarrow> npfloat" where
  "np_sign = lift1 sgn"

text \<open>\<open>np.clip(a, lo, hi)\<close> is \<open>minimum(maximum(a, lo), hi)\<close>; \<open>nan\<close> stays \<open>nan\<close>.\<close>

fun np_clip :: "npfloat \<Rightarrow> real \<Rightarrow> real \<Rightarrow> npfloat" where
  "np_clip (Fin a) lo hi = Fin (min (max a lo) hi)"
| "np_clip NaN lo hi = NaN"

text \<open>A comparison with \<open>nan\<close> is false.\<close>

fun np_gt :: "npfloat \<Rightarrow> npfloat \<Rightarrow> bool" where
  "np_gt (Fin a) (Fin b) = (a > b)"
| "np_gt _ _ = False"

text \<open>
  \<open>np.arcsin\<close> outside \<open>[-1, 1]\<close> is \<open>nan\<close> (with a RuntimeWarning, not an exception).
\<close>

fun np_arcsin :: "npfloat \<Rightarrow> npfloat" where
  "np_arcsin (Fin a) = (if -1 \<le> a \<and> a \<le> 1 then Fin (arcsin a) else NaN)"
| "np_arcsin NaN = NaN"

text \<open>
  The two-argument arctangent of the real numbers \<open>y\<close> and \<open>x\<close>: the angle of the point
  \<open>(x, y)\<close>, and 0 at the origin as in C and numpy. On the negative x axis it is
  \<open>pi\<close>; \<open>np.arctan2\<close> returns \<open>-pi\<close> there when its first argument is \<open>-0.0\<close> or a
  negative rounding error.
\<close>

definition atan2 :: "real \<Rightarrow> real \<Rightarrow> real" where
  "atan2 y x =
     (if 0 < x then arctan (y / x)
      else if x < 0 then (if 0 \<le> y then arctan (y / x) + pi else arctan (y / x) - pi)
      else if 0 < y then pi / 2
      else if y < 0 then - (pi / 2)
      else 0)"

definition np_arctan2 :: "npfloat \<Rightarrow> npfloat \<Rightarrow> npfloat" where
  "np_arctan2 = lift2 atan2"

subsection \<open>The data: EulerAngles and the quaternion array\<close>

record EulerAngles =
  roll :: npfloat
  pitch :: npfloat
  yaw :: npfloat

text \<open>
  A quaternion is the numpy array \<open>[w, x, y, z]\<close>; the source unpacks it into exactly
  four components, so it is a 4-tuple here.
\<close>

type_synonym quaternion = "npfloat \<times> npfloat \<times> npfloat \<times> npfloat"

text \<open>\<open>np.linalg.norm\<close> of four finite components.\<close>

definition norm4 :: "real \<Rightarrow> real \<Rightarrow> real \<Rightarrow> real \<Rightarrow> real" where
  "norm4 w x y z = sqrt (w * w + x * x + y * y + z * z)"

text \<open>
  \<open>q / np.linalg.norm(q)\<close>. The norm is 0 only when every component is 0 (lemma
  \<open>norm4_eq_0_iff\<close> below), and there each quotient is \<open>0 / 0\<close>, which numpy evaluates
  to \<open>nan\<close> without raising. A \<open>nan\<close> component makes the norm, and so every quotient,
  \<open>nan\<close>. The norm here is the exact one: the code's is 0 or infinite on some nonzero
  finite arrays of extreme magnitude, which the claims below exclude by a bound on the norm.
\<close>

fun normalize :: "quaternion \<Rightarrow> quaternion" where
  "normalize (Fin w, Fin x, Fin y, Fin z) =
     (let n = norm4 w x y z
      in if n = 0 then (NaN, NaN, NaN, NaN)
         else (Fin (w / n), Fin (x / n), Fin (y / n), Fin (z / n)))"
| "normalize _ = (NaN, NaN, NaN, NaN)"

subsection \<open>RotationConverter\<close>

definition SINGULARITY_TOLERANCE :: real where
  "SINGULARITY_TOLERANCE = 1 / 1000000"

definition euler_to_quaternion :: "EulerAngles \<Rightarrow> quaternion" where
  "euler_to_quaternion euler =
     (let cr = np_cos (np_mul (roll euler) (Fin 0.5));
          sr = np_sin (np_mul (roll euler) (Fin 0.5));
          cp = np_cos (np_mul (pitch euler) (Fin 0.5));
          sp = np_sin (np_mul (pitch euler) (Fin 0.5));
          cy = np_cos (np_mul (yaw euler) (Fin 0.5));
          sy = np_sin (np_mul (yaw euler) (Fin 0.5));
          w = np_add (np_mul (np_mul cr cp) cy) (np_mul (np_mul sr sp) sy);
          x = np_sub (np_mul (np_mul sr cp) cy) (np_mul (np_mul cr sp) sy);
          y = np_add (np_mul (np_mul cr sp) cy) (np_mul (np_mul sr cp) sy);
          z = np_sub (np_mul (np_mul cr cp) sy) (np_mul (np_mul sr sp) cy)
      in normalize (w, x, y, z))"

text \<open>
  The body of \<open>quaternion_to_euler\<close> from the clamp of \<open>t0\<close> on (lines 67 to 92), as a
  function of the local variables it reads: the unclamped \<open>t0\<close> and the normalized
  components. The warning printed in the singular branch does not change the result
  and is left out.
\<close>

definition euler_from_t0 :: "npfloat \<Rightarrow> quaternion \<Rightarrow> EulerAngles" where
  "euler_from_t0 t0_raw q =
     (case q of (w, x, y, z) \<Rightarrow>
        let t0 = np_clip t0_raw (-1) 1
        in if np_gt (np_abs t0) (Fin (1 - SINGULARITY_TOLERANCE))
           then \<lparr> roll = Fin 0,
                  pitch = np_mul (Fin (pi / 2)) (np_sign t0),
                  yaw = np_mul (Fin 2) (np_arctan2 x w) \<rparr>
           else \<lparr> roll = np_arctan2 (np_mul (Fin 2) (np_add (np_mul w x) (np_mul y z)))
                                     (np_sub (Fin 1) (np_mul (Fin 2) (np_add (np_mul x x) (np_mul y y)))),
                  pitch = np_arcsin t0,
                  yaw = np_arctan2 (np_mul (Fin 2) (np_add (np_mul w z) (np_mul x y)))
                                    (np_sub (Fin 1) (np_mul (Fin 2) (np_add (np_mul y y) (np_mul z z)))) \<rparr>)"

definition quaternion_to_euler :: "quaternion \<Rightarrow> EulerAngles" where
  "quaternion_to_euler q0 =
     (case normalize q0 of (w, x, y, z) \<Rightarrow>
        euler_from_t0 (np_mul (Fin 2) (np_sub (np_mul w y) (np_mul z x))) (w, x, y, z))"

text \<open>
  Two local quantities of \<open>quaternion_to_euler\<close> as functions of its input: the value
  of \<open>t0\<close> after the clamp of line 67, and the test of line 71, which decides whether
  the singular (gimbal-lock) branch is taken.
\<close>

definition clipped_t0 :: "quaternion \<Rightarrow> npfloat" where
  "clipped_t0 q0 =
     (case normalize q0 of (w, x, y, z) \<Rightarrow>
        np_clip (np_mul (Fin 2) (np_sub (np_mul w y) (np_mul z x))) (-1) 1)"

definition gimbal_lock :: "quaternion \<Rightarrow> bool" where
  "gimbal_lock q0 = np_gt (np_abs (clipped_t0 q0)) (Fin (1 - SINGULARITY_TOLERANCE))"

subsection \<open>Operations of the callers\<close>

text \<open>\<open>k * q\<close> and \<open>-q\<close> on a numpy array.\<close>

definition np_scale :: "real \<Rightarrow> quaternion \<Rightarrow> quaternion" where
  "np_scale k q = (case q of (w, x, y, z) \<Rightarrow>
     (np_mul (Fin k) w, np_mul (Fin k) x, np_mul (Fin k) y, np_mul (Fin k) z))"

definition np_negative :: "quaternion \<Rightarrow> quaternion" where
  "np_negative q = (case q of (w, x, y, z) \<Rightarrow>
     (lift1 uminus w, lift1 uminus x, lift1 uminus y, lift1 uminus z))"

text \<open>
  \<open>a + b\<close> on two doubles, as a caller computes \<open>roll + 2 * np.pi\<close>: the exact sum
  rounded to the nearest double, ties to the even significand. A double in the binade
  \<open>[2^e, 2^(e+1))\<close> is a multiple of \<open>2^(e-52)\<close>. The definition is for results in the
  normal range: it leaves out overflow and the subnormal numbers. \<open>np_pi\<close> is the double
  \<open>np.pi\<close>.
\<close>

definition round_ties_even :: "real \<Rightarrow> int" where
  "round_ties_even y =
     (let f = \<lfloor>y\<rfloor>
      in if y - of_int f < 1 / 2 then f
         else if 1 / 2 < y - of_int f then f + 1
         else if even f then f else f + 1)"

definition float64_round :: "real \<Rightarrow> real" where
  "float64_round x =
     (if x = 0 then 0
      else let u = 2 powr of_int (\<lfloor>log 2 \<bar>x\<bar>\<rfloor> - 52)
           in u * of_int (round_ties_even (x / u)))"

definition np_pi :: real where
  "np_pi = 884279719003555 / 281474976710656"

definition float64_add :: "real \<Rightarrow> real \<Rightarrow> real" where
  "float64_add a b = float64_round (a + b)"

text \<open>
  The relation of two quaternion arrays that \<open>np.allclose(q', -q, rtol=0, atol=tol)\<close>
  tests: every component of \<open>q'\<close> is within \<open>tol\<close> of the negated component of \<open>q\<close>.
\<close>

fun negated_within :: "real \<Rightarrow> quaternion \<Rightarrow> quaternion \<Rightarrow> bool" where
  "negated_within tol (Fin w', Fin x', Fin y', Fin z') (Fin w, Fin x, Fin y, Fin z) =
     (\<bar>w' + w\<bar> \<le> tol \<and> \<bar>x' + x\<bar> \<le> tol \<and> \<bar>y' + y\<bar> \<le> tol \<and> \<bar>z' + z\<bar> \<le> tol)"
| "negated_within tol _ _ = False"

subsection \<open>The components of lines 40 to 43 on finite angles\<close>

definition qw :: "real \<Rightarrow> real \<Rightarrow> real \<Rightarrow> real" where
  "qw r p y = cos (r / 2) * cos (p / 2) * cos (y / 2) + sin (r / 2) * sin (p / 2) * sin (y / 2)"

definition qx :: "real \<Rightarrow> real \<Rightarrow> real \<Rightarrow> real" where
  "qx r p y = sin (r / 2) * cos (p / 2) * cos (y / 2) - cos (r / 2) * sin (p / 2) * sin (y / 2)"

definition qy :: "real \<Rightarrow> real \<Rightarrow> real \<Rightarrow> real" where
  "qy r p y = cos (r / 2) * sin (p / 2) * cos (y / 2) + sin (r / 2) * cos (p / 2) * sin (y / 2)"

definition qz :: "real \<Rightarrow> real \<Rightarrow> real \<Rightarrow> real" where
  "qz r p y = cos (r / 2) * cos (p / 2) * sin (y / 2) - sin (r / 2) * sin (p / 2) * cos (y / 2)"

section \<open>Basic facts\<close>

lemmas np_defs = np_cos_def np_sin_def np_mul_def np_add_def np_sub_def np_abs_def
  np_sign_def np_arctan2_def

lemma norm4_eq_0_iff: "norm4 w x y z = 0 \<longleftrightarrow> w = 0 \<and> x = 0 \<and> y = 0 \<and> z = 0"
proof -
  have "w * w + x * x + y * y + z * z = 0 \<longleftrightarrow> w = 0 \<and> x = 0 \<and> y = 0 \<and> z = 0"
    using sum_power2_eq_zero_iff [of w x] sum_power2_eq_zero_iff [of y z]
      add_nonneg_eq_0_iff [of "w\<^sup>2 + x\<^sup>2" "y\<^sup>2 + z\<^sup>2"]
    by (simp add: power2_eq_square add.assoc)
  then show ?thesis by (simp add: norm4_def)
qed

lemma cs1: "cos (a::real) * cos a + sin a * sin a = 1"
  using sin_cos_squared_add2 [of a] by (simp add: power2_eq_square)

lemma quat_unit:
  fixes cr sr cp sp cy sy :: real
  assumes "cr * cr + sr * sr = 1" "cp * cp + sp * sp = 1" "cy * cy + sy * sy = 1"
  shows "(cr * cp * cy + sr * sp * sy) * (cr * cp * cy + sr * sp * sy)
       + (sr * cp * cy - cr * sp * sy) * (sr * cp * cy - cr * sp * sy)
       + (cr * sp * cy + sr * cp * sy) * (cr * sp * cy + sr * cp * sy)
       + (cr * cp * sy - sr * sp * cy) * (cr * cp * sy - sr * sp * cy) = 1"
  using assms by algebra

lemma q_norm: "norm4 (qw r p y) (qx r p y) (qy r p y) (qz r p y) = 1"
  unfolding norm4_def qw_def qx_def qy_def qz_def
  using quat_unit [OF cs1 [of "r / 2"] cs1 [of "p / 2"] cs1 [of "y / 2"]] by simp

lemma e2q_Fin:
  "euler_to_quaternion \<lparr> roll = Fin r, pitch = Fin p, yaw = Fin y \<rparr>
     = (Fin (qw r p y), Fin (qx r p y), Fin (qy r p y), Fin (qz r p y))"
  using q_norm [of r p y]
  by (simp add: euler_to_quaternion_def np_defs Let_def qw_def qx_def qy_def qz_def)

lemma normalize_Fin:
  "norm4 w x y z \<noteq> 0 \<Longrightarrow> normalize (Fin w, Fin x, Fin y, Fin z) =
     (Fin (w / norm4 w x y z), Fin (x / norm4 w x y z), Fin (y / norm4 w x y z),
      Fin (z / norm4 w x y z))"
  by (simp add: Let_def)

lemma normalize_unit:
  "norm4 w x y z = 1 \<Longrightarrow> normalize (Fin w, Fin x, Fin y, Fin z) = (Fin w, Fin x, Fin y, Fin z)"
  by (simp add: Let_def)

lemma euler_from_t0_Fin:
  "euler_from_t0 (Fin t) (Fin w, Fin x, Fin y, Fin z) =
     (if \<bar>min (max t (-1)) 1\<bar> > 1 - 1 / 1000000
      then \<lparr> roll = Fin 0, pitch = Fin (pi / 2 * sgn (min (max t (-1)) 1)),
             yaw = Fin (2 * atan2 x w) \<rparr>
      else \<lparr> roll = Fin (atan2 (2 * (w * x + y * z)) (1 - 2 * (x * x + y * y))),
             pitch = Fin (arcsin (min (max t (-1)) 1)),
             yaw = Fin (atan2 (2 * (w * z + x * y)) (1 - 2 * (y * y + z * z))) \<rparr>)"
proof -
  define c where "c = min (max t (-1)) 1"
  have c: "- 1 \<le> c" "c \<le> 1" by (simp_all add: c_def)
  have "np_clip (Fin t) (-1) 1 = Fin c" by (simp add: c_def)
  then show ?thesis
    unfolding c_def [symmetric] euler_from_t0_def using c
    by (simp add: np_defs SINGULARITY_TOLERANCE_def del: np_clip.simps)
qed

lemma quaternion_to_euler_Fin:
  assumes "norm4 w0 x0 y0 z0 \<noteq> 0"
  shows "quaternion_to_euler (Fin w0, Fin x0, Fin y0, Fin z0) =
     euler_from_t0
       (Fin (2 * (w0 / norm4 w0 x0 y0 z0 * (y0 / norm4 w0 x0 y0 z0)
                 - z0 / norm4 w0 x0 y0 z0 * (x0 / norm4 w0 x0 y0 z0))))
       (Fin (w0 / norm4 w0 x0 y0 z0), Fin (x0 / norm4 w0 x0 y0 z0),
        Fin (y0 / norm4 w0 x0 y0 z0), Fin (z0 / norm4 w0 x0 y0 z0))"
  using assms by (simp add: quaternion_to_euler_def normalize_Fin np_defs del: normalize.simps)

lemma quaternion_to_euler_unit:
  assumes "norm4 w x y z = 1"
  shows "quaternion_to_euler (Fin w, Fin x, Fin y, Fin z) =
     euler_from_t0 (Fin (2 * (w * y - z * x))) (Fin w, Fin x, Fin y, Fin z)"
  using assms by (simp add: quaternion_to_euler_def normalize_unit np_defs del: normalize.simps)

lemma clipped_t0_Fin:
  assumes "norm4 w0 x0 y0 z0 \<noteq> 0"
  shows "clipped_t0 (Fin w0, Fin x0, Fin y0, Fin z0) =
     Fin (min (max (2 * (w0 / norm4 w0 x0 y0 z0 * (y0 / norm4 w0 x0 y0 z0)
                 - z0 / norm4 w0 x0 y0 z0 * (x0 / norm4 w0 x0 y0 z0))) (-1)) 1)"
  using assms by (simp add: clipped_t0_def normalize_Fin np_defs del: normalize.simps)

lemma clipped_t0_unit:
  assumes "norm4 w x y z = 1"
  shows "clipped_t0 (Fin w, Fin x, Fin y, Fin z) = Fin (min (max (2 * (w * y - z * x)) (-1)) 1)"
  using assms by (simp add: clipped_t0_def normalize_unit np_defs del: normalize.simps)

lemma gimbal_lock_Fin:
  assumes "norm4 w0 x0 y0 z0 \<noteq> 0"
  shows "gimbal_lock (Fin w0, Fin x0, Fin y0, Fin z0) \<longleftrightarrow>
     \<bar>min (max (2 * (w0 / norm4 w0 x0 y0 z0 * (y0 / norm4 w0 x0 y0 z0)
                 - z0 / norm4 w0 x0 y0 z0 * (x0 / norm4 w0 x0 y0 z0))) (-1)) 1\<bar> > 1 - 1 / 1000000"
  using assms
  by (simp add: gimbal_lock_def clipped_t0_Fin np_defs SINGULARITY_TOLERANCE_def)

lemma gimbal_lock_unit:
  assumes "norm4 w x y z = 1"
  shows "gimbal_lock (Fin w, Fin x, Fin y, Fin z) \<longleftrightarrow>
     \<bar>min (max (2 * (w * y - z * x)) (-1)) 1\<bar> > 1 - 1 / 1000000"
  using assms
  by (simp add: gimbal_lock_def clipped_t0_unit np_defs SINGULARITY_TOLERANCE_def)

subsection \<open>The two-argument arctangent\<close>


lemma atan2_polar:
  assumes r: "0 < r" and t: "- pi < t" "t \<le> pi"
  shows "atan2 (r * sin t) (r * cos t) = t"
proof -
  have q: "r * sin t / (r * cos t) = tan t"
    using r by (simp add: tan_def)
  consider (a) "- (pi / 2) < t \<and> t < pi / 2" | (b) "pi / 2 < t" | (c) "t < - (pi / 2)"
    | (d) "t = pi / 2" | (e) "t = - (pi / 2)"
    by linarith
  then show ?thesis
  proof cases
    case a
    then have "0 < cos t" by (simp add: cos_gt_zero_pi)
    then have "0 < r * cos t" using r by simp
    then show ?thesis using a q by (simp add: atan2_def arctan_tan)
  next
    case b
    have c: "cos t < 0"
      using b t cos_gt_zero_pi [of "t - pi"] by simp
    have s: "0 \<le> sin t"
      using b t sin_ge_zero [of t] pi_gt_zero by simp
    have "arctan (tan t) = arctan (tan (t - pi))"
      using tan_periodic_int [of t "-1"] by simp
    also have "\<dots> = t - pi"
      using b t by (intro arctan_tan) auto
    finally have "arctan (tan t) = t - pi" .
    moreover have "r * cos t < 0" using c r by (simp add: mult_pos_neg)
    moreover have "0 \<le> r * sin t" using s r by simp
    ultimately show ?thesis using q by (simp add: atan2_def)
  next
    case c
    have c': "cos t < 0"
      using c t cos_gt_zero_pi [of "t + pi"] by simp
    have s: "sin t < 0"
      using c t sin_gt_zero [of "t + pi"] pi_gt_zero by simp
    have "arctan (tan t) = arctan (tan (t + pi))"
      by simp
    also have "\<dots> = t + pi"
      using c t by (intro arctan_tan) auto
    finally have "arctan (tan t) = t + pi" .
    moreover have "r * cos t < 0" using c' r by (simp add: mult_pos_neg)
    moreover have "r * sin t < 0" using s r by (simp add: mult_pos_neg)
    ultimately show ?thesis using q by (simp add: atan2_def)
  next
    case d
    have "atan2 (r * sin (pi / 2)) (r * cos (pi / 2)) = pi / 2"
      using r by (simp add: atan2_def)
    then show ?thesis unfolding d .
  next
    case e
    have "atan2 (r * sin (- (pi / 2))) (r * cos (- (pi / 2))) = - (pi / 2)"
      using r by (simp add: atan2_def)
    then show ?thesis unfolding e .
  qed
qed

lemma atan2_quadrants: "atan2 (1 / 2) (1 / 2) = pi / 4" "atan2 (- (1 / 2)) (- (1 / 2)) = - (3 * pi / 4)"
  by (simp_all add: atan2_def arctan_one)

subsection \<open>The result of \<open>quaternion_to_euler\<close> on finite components\<close>


lemma euler_from_t0_negated:
  fixes t a b c d :: real
  defines "e \<equiv> euler_from_t0 (Fin t) (Fin a, Fin b, Fin c, Fin d)"
    and "e' \<equiv> euler_from_t0 (Fin t) (Fin (- a), Fin (- b), Fin (- c), Fin (- d))"
  shows "roll e' = roll e \<and> pitch e' = pitch e
       \<and> (\<not> \<bar>min (max t (-1)) 1\<bar> > 1 - 1 / 1000000 \<longrightarrow> e' = e)"
proof -
  define cl where "cl = min (max t (-1)) 1"
  show ?thesis
    unfolding e_def e'_def euler_from_t0_Fin cl_def [symmetric]
    by (cases "\<bar>cl\<bar> > 1 - 1 / 1000000") simp_all
qed

lemma norm4_scale: "norm4 (k * w) (k * x) (k * y) (k * z) = \<bar>k\<bar> * norm4 w x y z"
proof -
  have "k * w * (k * w) + k * x * (k * x) + k * y * (k * y) + k * z * (k * z)
      = k\<^sup>2 * (w * w + x * x + y * y + z * z)"
    by (simp add: power2_eq_square algebra_simps)
  then show ?thesis
    by (simp add: norm4_def real_sqrt_mult)
qed

lemma scaled_component:
  fixes k a n :: real
  assumes "k \<noteq> 0" "n \<noteq> 0"
  shows "k * a / (\<bar>k\<bar> * n) = sgn k * (a / n)"
  using assms by (cases "0 < k") (simp_all add: sgn_if)

lemma quaternion_to_euler_scaled:
  assumes n: "norm4 w x y z \<noteq> 0" and k: "k \<noteq> 0"
  shows "quaternion_to_euler (np_scale k (Fin w, Fin x, Fin y, Fin z)) =
     euler_from_t0
       (Fin (2 * (w / norm4 w x y z * (y / norm4 w x y z)
                 - z / norm4 w x y z * (x / norm4 w x y z))))
       (Fin (sgn k * (w / norm4 w x y z)), Fin (sgn k * (x / norm4 w x y z)),
        Fin (sgn k * (y / norm4 w x y z)), Fin (sgn k * (z / norm4 w x y z)))"
proof -
  have n': "norm4 (k * w) (k * x) (k * y) (k * z) \<noteq> 0"
    using n k by (simp add: norm4_scale)
  have s: "sgn k * sgn k = 1" using k by (simp add: sgn_if)
  have t: "sgn k * a * (sgn k * b) = a * b" for a b :: real
    using s by (simp add: mult.assoc mult.left_commute)
  have "np_scale k (Fin w, Fin x, Fin y, Fin z) = (Fin (k * w), Fin (k * x), Fin (k * y), Fin (k * z))"
    by (simp add: np_scale_def np_defs)
  then show ?thesis
    using quaternion_to_euler_Fin [OF n']
    by (simp only: norm4_scale scaled_component [OF k n] t)
qed

lemma norm4_ones: "norm4 1 1 1 (- 1) = 2"
  by (simp add: norm4_def)





subsection \<open>The round trip in closed form\<close>

lemma quat_t0:
  fixes cr sr cp sp cy sy :: real
  assumes "cr * cr + sr * sr = 1" "cp * cp + sp * sp = 1" "cy * cy + sy * sy = 1"
  shows "2 * ((cr * cp * cy + sr * sp * sy) * (cr * sp * cy + sr * cp * sy)
       - (cr * cp * sy - sr * sp * cy) * (sr * cp * cy - cr * sp * sy)) = 2 * sp * cp"
  using assms by algebra

lemma quat_roll_sin:
  fixes cr sr cp sp cy sy :: real
  assumes "cr * cr + sr * sr = 1" "cp * cp + sp * sp = 1" "cy * cy + sy * sy = 1"
  shows "2 * ((cr * cp * cy + sr * sp * sy) * (sr * cp * cy - cr * sp * sy)
       + (cr * sp * cy + sr * cp * sy) * (cr * cp * sy - sr * sp * cy)) = (cp * cp - sp * sp) * (2 * sr * cr)"
  using assms by algebra

lemma quat_roll_cos:
  fixes cr sr cp sp cy sy :: real
  assumes "cr * cr + sr * sr = 1" "cp * cp + sp * sp = 1" "cy * cy + sy * sy = 1"
  shows "1 - 2 * ((sr * cp * cy - cr * sp * sy) * (sr * cp * cy - cr * sp * sy)
       + (cr * sp * cy + sr * cp * sy) * (cr * sp * cy + sr * cp * sy)) = (cp * cp - sp * sp) * (cr * cr - sr * sr)"
  using assms by algebra

lemma quat_yaw_sin:
  fixes cr sr cp sp cy sy :: real
  assumes "cr * cr + sr * sr = 1" "cp * cp + sp * sp = 1" "cy * cy + sy * sy = 1"
  shows "2 * ((cr * cp * cy + sr * sp * sy) * (cr * cp * sy - sr * sp * cy)
       + (sr * cp * cy - cr * sp * sy) * (cr * sp * cy + sr * cp * sy)) = (cp * cp - sp * sp) * (2 * sy * cy)"
  using assms by algebra

lemma quat_yaw_cos:
  fixes cr sr cp sp cy sy :: real
  assumes "cr * cr + sr * sr = 1" "cp * cp + sp * sp = 1" "cy * cy + sy * sy = 1"
  shows "1 - 2 * ((cr * sp * cy + sr * cp * sy) * (cr * sp * cy + sr * cp * sy)
       + (cr * cp * sy - sr * sp * cy) * (cr * cp * sy - sr * sp * cy)) = (cp * cp - sp * sp) * (cy * cy - sy * sy)"
  using assms by algebra

lemma sin_half: "2 * sin (a / 2) * cos (a / 2) = sin (a::real)"
  using sin_double [of "a / 2"] by simp

lemma cos_half: "cos (a / 2) * cos (a / 2) - sin (a / 2) * sin (a / 2) = cos (a::real)"
  using cos_double [of "a / 2"] by (simp add: power2_eq_square)

lemma q_t0: "2 * (qw r p y * qy r p y - qz r p y * qx r p y) = sin p"
  unfolding qw_def qx_def qy_def qz_def
  using quat_t0 [OF cs1 [of "r / 2"] cs1 [of "p / 2"] cs1 [of "y / 2"]] sin_half [of p] by simp

lemma q_roll:
  "2 * (qw r p y * qx r p y + qy r p y * qz r p y) = cos p * sin r"
  "1 - 2 * (qx r p y * qx r p y + qy r p y * qy r p y) = cos p * cos r"
  unfolding qw_def qx_def qy_def qz_def
  using quat_roll_sin [OF cs1 [of "r / 2"] cs1 [of "p / 2"] cs1 [of "y / 2"]]
    quat_roll_cos [OF cs1 [of "r / 2"] cs1 [of "p / 2"] cs1 [of "y / 2"]]
    sin_half [of r] cos_half [of p] cos_half [of r]
  by simp_all

lemma q_yaw:
  "2 * (qw r p y * qz r p y + qx r p y * qy r p y) = cos p * sin y"
  "1 - 2 * (qy r p y * qy r p y + qz r p y * qz r p y) = cos p * cos y"
  unfolding qw_def qx_def qy_def qz_def
  using quat_yaw_sin [OF cs1 [of "r / 2"] cs1 [of "p / 2"] cs1 [of "y / 2"]]
    quat_yaw_cos [OF cs1 [of "r / 2"] cs1 [of "p / 2"] cs1 [of "y / 2"]]
    sin_half [of y] cos_half [of p] cos_half [of y]
  by simp_all

lemma round_trip_form:
  "quaternion_to_euler (euler_to_quaternion \<lparr> roll = Fin r, pitch = Fin p, yaw = Fin y \<rparr>) =
     (if \<bar>sin p\<bar> > 1 - 1 / 1000000
      then \<lparr> roll = Fin 0, pitch = Fin (pi / 2 * sgn (sin p)),
             yaw = Fin (2 * atan2 (qx r p y) (qw r p y)) \<rparr>
      else \<lparr> roll = Fin (atan2 (cos p * sin r) (cos p * cos r)),
             pitch = Fin (arcsin (sin p)),
             yaw = Fin (atan2 (cos p * sin y) (cos p * cos y)) \<rparr>)"
proof -
  have c: "min (max (sin p) (-1)) 1 = sin p"
    using sin_ge_minus_one [of p] sin_le_one [of p] by linarith
  show ?thesis
    unfolding e2q_Fin quaternion_to_euler_unit [OF q_norm] euler_from_t0_Fin q_t0 q_roll q_yaw c
    by (rule refl)
qed

lemma cos_near_zero: "1 - 1 / 1000000 < cos (1 / 1000 :: real)"
proof -
  have "\<bar>sin (1 / 2000 :: real)\<bar> \<le> 1 / 2000"
    using abs_sin_x_le_abs_x [of "1 / 2000 :: real"] by simp
  then have "(sin (1 / 2000 :: real))\<^sup>2 \<le> (1 / 2000)\<^sup>2"
    using abs_le_square_iff [of "sin (1 / 2000 :: real)" "1 / 2000"] by simp
  moreover have "cos (1 / 1000 :: real) = 1 - 2 * (sin (1 / 2000))\<^sup>2"
    using cos_double_sin [of "1 / 2000 :: real"] by simp
  ultimately show ?thesis by (simp add: power2_eq_square)
qed

lemma cos_sin_pi4: "cos (pi / 4) * sin (pi / 4) = 1 / 2" "sin (pi / 4) * cos (pi / 4) = 1 / 2"
  by (simp_all add: cos_45 sin_45 field_simps)

subsection \<open>Exact statements on the model\<close>

lemma round_trip_exact:
  assumes r: "- pi < r" "r \<le> pi" and y: "- pi < y" "y \<le> pi"
    and p: "- (pi / 2) \<le> p" "p \<le> pi / 2" and s: "\<bar>sin p\<bar> \<le> 1 - 1 / 1000000"
  shows "quaternion_to_euler (euler_to_quaternion \<lparr> roll = Fin r, pitch = Fin p, yaw = Fin y \<rparr>)
       = \<lparr> roll = Fin r, pitch = Fin p, yaw = Fin y \<rparr>"
proof -
  have "p \<noteq> pi / 2"
  proof
    assume e: "p = pi / 2"
    have "sin p = 1" unfolding e by simp
    with s show False by simp
  qed
  moreover have "p \<noteq> - (pi / 2)"
  proof
    assume e: "p = - (pi / 2)"
    have "sin p = - 1" unfolding e by simp
    with s show False by simp
  qed
  ultimately have "- (pi / 2) < p" "p < pi / 2" using p by simp_all
  then have c: "0 < cos p" by (rule cos_gt_zero_pi)
  have "arcsin (sin p) = p" using p by (rule arcsin_sin)
  then show ?thesis
    unfolding round_trip_form using s atan2_polar [OF c r] atan2_polar [OF c y] by simp
qed

lemma scale_exact:
  assumes nz: "(w, x, y, z) \<noteq> (0, 0, 0, 0)" and k: "k \<noteq> 0"
  shows "roll (quaternion_to_euler (np_scale k (Fin w, Fin x, Fin y, Fin z)))
           = roll (quaternion_to_euler (Fin w, Fin x, Fin y, Fin z))
       \<and> pitch (quaternion_to_euler (np_scale k (Fin w, Fin x, Fin y, Fin z)))
           = pitch (quaternion_to_euler (Fin w, Fin x, Fin y, Fin z))
       \<and> (0 < k \<or> \<not> gimbal_lock (Fin w, Fin x, Fin y, Fin z) \<longrightarrow>
            quaternion_to_euler (np_scale k (Fin w, Fin x, Fin y, Fin z))
              = quaternion_to_euler (Fin w, Fin x, Fin y, Fin z))"
proof -
  from nz have n: "norm4 w x y z \<noteq> 0" by (simp add: norm4_eq_0_iff)
  show ?thesis
  proof (cases "0 < k")
    case True
    then have "sgn k = 1" by simp
    then show ?thesis
      unfolding quaternion_to_euler_scaled [OF n k] quaternion_to_euler_Fin [OF n] by simp
  next
    case False
    with k have s: "sgn k = - 1" by (simp add: sgn_if)
    show ?thesis
      unfolding quaternion_to_euler_scaled [OF n k] quaternion_to_euler_Fin [OF n]
        gimbal_lock_Fin [OF n] s
      using euler_from_t0_negated False by simp
  qed
qed

lemma identity_quaternion:
  "quaternion_to_euler (Fin 1, Fin 0, Fin 0, Fin 0) = \<lparr> roll = Fin 0, pitch = Fin 0, yaw = Fin 0 \<rparr>"
  "clipped_t0 (Fin 1, Fin 0, Fin 0, Fin 0) = Fin 0"
  "\<not> gimbal_lock (Fin 1, Fin 0, Fin 0, Fin 0)"
proof -
  have n: "norm4 1 0 0 0 = 1" by (simp add: norm4_def)
  have a: "atan2 0 1 = 0" by (simp add: atan2_def)
  show "quaternion_to_euler (Fin 1, Fin 0, Fin 0, Fin 0) = \<lparr> roll = Fin 0, pitch = Fin 0, yaw = Fin 0 \<rparr>"
    unfolding quaternion_to_euler_unit [OF n] by (simp add: euler_from_t0_Fin a)
  show "clipped_t0 (Fin 1, Fin 0, Fin 0, Fin 0) = Fin 0"
    unfolding clipped_t0_unit [OF n] by simp
  show "\<not> gimbal_lock (Fin 1, Fin 0, Fin 0, Fin 0)"
    unfolding gimbal_lock_unit [OF n] by simp
qed

lemma sin_half_small: "\<bar>sin (1 / 2 :: real)\<bar> \<le> 1 - 2 / 1000000"
  using abs_sin_x_le_abs_x [of "1 / 2 :: real"] by simp

subsection \<open>A shift of an angle by nearly \<open>2 * pi\<close>\<close>

lemma float64_add_absorbed: "float64_add (10 ^ 17) (2 * np_pi) = 10 ^ 17"
proof -
  define x :: real where "x = 10 ^ 17 + 2 * np_pi"
  have pos: "0 < x" by (simp add: x_def np_pi_def)
  have "2 powr of_int 56 \<le> x \<and> x < 2 powr of_int (56 + 1)"
    by (simp add: x_def np_pi_def powr_numeral del: of_int_add)
  then have fl: "\<lfloor>log 2 x\<rfloor> = 56"
    using floor_log_eq_powr_iff [of x 2 56] pos by simp
  have u: "(2::real) powr of_int (56 - 52) = 16"
    by (simp add: powr_numeral)
  have q: "x / 16 = of_int 6250000000000000 + np_pi / 8"
    by (simp add: x_def)
  have f: "\<lfloor>x / 16\<rfloor> = 6250000000000000"
    unfolding q by (simp add: np_pi_def floor_add_int)
  have r: "round_ties_even (x / 16) = 6250000000000000"
    unfolding round_ties_even_def f Let_def by (simp add: q np_pi_def)
  have "float64_round x = 10 ^ 17"
    using pos unfolding float64_round_def by (simp add: fl u r Let_def)
  then show ?thesis by (simp add: float64_add_def x_def)
qed

lemma half_shift_bound:
  fixes a a' d :: real
  assumes "\<bar>a' - (a + 2 * pi)\<bar> \<le> d"
  shows "\<bar>cos (a' / 2) + cos (a / 2)\<bar> \<le> d / 2" "\<bar>sin (a' / 2) + sin (a / 2)\<bar> \<le> d / 2"
proof -
  define b where "b = a / 2 + pi"
  have e: "\<bar>a' / 2 - b\<bar> \<le> d / 2"
    using assms by (simp add: b_def abs_le_iff field_simps)
  have cb: "cos b = - cos (a / 2)" and sb: "sin b = - sin (a / 2)"
    by (simp_all add: b_def)
  have h: "\<bar>sin ((a' / 2 - b) / 2)\<bar> \<le> \<bar>a' / 2 - b\<bar> / 2"
    using abs_sin_x_le_abs_x [of "(a' / 2 - b) / 2"] by simp
  have h': "\<bar>sin ((b - a' / 2) / 2)\<bar> \<le> \<bar>a' / 2 - b\<bar> / 2"
    using abs_sin_x_le_abs_x [of "(b - a' / 2) / 2"] by (simp add: abs_minus_commute)
  have "\<bar>cos (a' / 2) - cos b\<bar> = 2 * \<bar>sin ((a' / 2 + b) / 2)\<bar> * \<bar>sin ((b - a' / 2) / 2)\<bar>"
    by (simp add: cos_diff_cos abs_mult)
  also have "\<dots> \<le> 2 * 1 * (\<bar>a' / 2 - b\<bar> / 2)"
    by (intro mult_mono) (use h' in simp_all)
  finally show "\<bar>cos (a' / 2) + cos (a / 2)\<bar> \<le> d / 2"
    using e by (simp add: cb)
  have "\<bar>sin (a' / 2) - sin b\<bar> = 2 * \<bar>sin ((a' / 2 - b) / 2)\<bar> * \<bar>cos ((a' / 2 + b) / 2)\<bar>"
    by (simp add: sin_diff_sin abs_mult)
  also have "\<dots> \<le> 2 * (\<bar>a' / 2 - b\<bar> / 2) * 1"
    by (intro mult_mono) (use h in simp_all)
  finally show "\<bar>sin (a' / 2) + sin (a / 2)\<bar> \<le> d / 2"
    using e by (simp add: sb)
qed

lemma unit_product: "\<bar>A\<bar> \<le> 1 \<Longrightarrow> \<bar>B\<bar> \<le> 1 \<Longrightarrow> \<bar>A * B\<bar> \<le> (1::real)"
  by (simp add: abs_mult mult_le_one)

lemma pair_bound:
  fixes u v A B e :: real
  assumes "\<bar>u\<bar> \<le> e" "\<bar>v\<bar> \<le> e" "\<bar>A\<bar> \<le> 1" "\<bar>B\<bar> \<le> 1"
  shows "\<bar>u * A + v * B\<bar> \<le> 2 * e" "\<bar>u * A - v * B\<bar> \<le> 2 * e"
proof -
  have e: "0 \<le> e" using assms(1) by linarith
  have a: "\<bar>u * A\<bar> \<le> e * 1"
    unfolding abs_mult using assms e by (intro mult_mono) simp_all
  have b: "\<bar>v * B\<bar> \<le> e * 1"
    unfolding abs_mult using assms e by (intro mult_mono) simp_all
  show "\<bar>u * A + v * B\<bar> \<le> 2 * e" "\<bar>u * A - v * B\<bar> \<le> 2 * e"
    using a b by linarith+
qed

lemma roll_shift_bound:
  fixes r p y d :: real
  assumes "\<bar>r' - (r + 2 * pi)\<bar> \<le> d"
  shows "negated_within d
      (Fin (qw r' p y), Fin (qx r' p y), Fin (qy r' p y), Fin (qz r' p y))
      (Fin (qw r p y), Fin (qx r p y), Fin (qy r p y), Fin (qz r p y))"
proof -
  define u where "u = cos (r' / 2) + cos (r / 2)"
  define v where "v = sin (r' / 2) + sin (r / 2)"
  have uv: "\<bar>u\<bar> \<le> d / 2" "\<bar>v\<bar> \<le> d / 2"
    unfolding u_def v_def using half_shift_bound [OF assms] by simp_all
  have c: "\<bar>cos t * cos t'\<bar> \<le> 1" "\<bar>sin t * sin t'\<bar> \<le> 1"
    "\<bar>sin t * cos t'\<bar> \<le> 1" "\<bar>cos t * sin t'\<bar> \<le> 1" for t t' :: real
    by (simp_all add: unit_product)
  have "qw r' p y + qw r p y = u * (cos (p / 2) * cos (y / 2)) + v * (sin (p / 2) * sin (y / 2))"
    by (simp add: qw_def u_def v_def algebra_simps)
  moreover have "\<bar>u * (cos (p / 2) * cos (y / 2)) + v * (sin (p / 2) * sin (y / 2))\<bar> \<le> 2 * (d / 2)"
    by (rule pair_bound(1) [OF uv(1) uv(2)]) (rule c)+
  ultimately have qw: "\<bar>qw r' p y + qw r p y\<bar> \<le> d" by simp
  have "qx r' p y + qx r p y = v * (cos (p / 2) * cos (y / 2)) - u * (sin (p / 2) * sin (y / 2))"
    by (simp add: qx_def u_def v_def algebra_simps)
  moreover have "\<bar>v * (cos (p / 2) * cos (y / 2)) - u * (sin (p / 2) * sin (y / 2))\<bar> \<le> 2 * (d / 2)"
    by (rule pair_bound(2) [OF uv(2) uv(1)]) (rule c)+
  ultimately have qx: "\<bar>qx r' p y + qx r p y\<bar> \<le> d" by simp
  have "qy r' p y + qy r p y = u * (sin (p / 2) * cos (y / 2)) + v * (cos (p / 2) * sin (y / 2))"
    by (simp add: qy_def u_def v_def algebra_simps)
  moreover have "\<bar>u * (sin (p / 2) * cos (y / 2)) + v * (cos (p / 2) * sin (y / 2))\<bar> \<le> 2 * (d / 2)"
    by (rule pair_bound(1) [OF uv(1) uv(2)]) (rule c)+
  ultimately have qy: "\<bar>qy r' p y + qy r p y\<bar> \<le> d" by simp
  have "qz r' p y + qz r p y = u * (cos (p / 2) * sin (y / 2)) - v * (sin (p / 2) * cos (y / 2))"
    by (simp add: qz_def u_def v_def algebra_simps)
  moreover have "\<bar>u * (cos (p / 2) * sin (y / 2)) - v * (sin (p / 2) * cos (y / 2))\<bar> \<le> 2 * (d / 2)"
    by (rule pair_bound(2) [OF uv(1) uv(2)]) (rule c)+
  ultimately have qz: "\<bar>qz r' p y + qz r p y\<bar> \<le> d" by simp
  show ?thesis using qw qx qy qz by simp
qed

lemma pitch_shift_bound:
  fixes r p y d :: real
  assumes "\<bar>p' - (p + 2 * pi)\<bar> \<le> d"
  shows "negated_within d
      (Fin (qw r p' y), Fin (qx r p' y), Fin (qy r p' y), Fin (qz r p' y))
      (Fin (qw r p y), Fin (qx r p y), Fin (qy r p y), Fin (qz r p y))"
proof -
  define u where "u = cos (p' / 2) + cos (p / 2)"
  define v where "v = sin (p' / 2) + sin (p / 2)"
  have uv: "\<bar>u\<bar> \<le> d / 2" "\<bar>v\<bar> \<le> d / 2"
    unfolding u_def v_def using half_shift_bound [OF assms] by simp_all
  have c: "\<bar>cos t * cos t'\<bar> \<le> 1" "\<bar>sin t * sin t'\<bar> \<le> 1"
    "\<bar>sin t * cos t'\<bar> \<le> 1" "\<bar>cos t * sin t'\<bar> \<le> 1" for t t' :: real
    by (simp_all add: unit_product)
  have "qw r p' y + qw r p y = u * (cos (r / 2) * cos (y / 2)) + v * (sin (r / 2) * sin (y / 2))"
    by (simp add: qw_def u_def v_def algebra_simps)
  moreover have "\<bar>u * (cos (r / 2) * cos (y / 2)) + v * (sin (r / 2) * sin (y / 2))\<bar> \<le> 2 * (d / 2)"
    by (rule pair_bound(1) [OF uv(1) uv(2)]) (rule c)+
  ultimately have qw: "\<bar>qw r p' y + qw r p y\<bar> \<le> d" by simp
  have "qx r p' y + qx r p y = u * (sin (r / 2) * cos (y / 2)) - v * (cos (r / 2) * sin (y / 2))"
    by (simp add: qx_def u_def v_def algebra_simps)
  moreover have "\<bar>u * (sin (r / 2) * cos (y / 2)) - v * (cos (r / 2) * sin (y / 2))\<bar> \<le> 2 * (d / 2)"
    by (rule pair_bound(2) [OF uv(1) uv(2)]) (rule c)+
  ultimately have qx: "\<bar>qx r p' y + qx r p y\<bar> \<le> d" by simp
  have "qy r p' y + qy r p y = v * (cos (r / 2) * cos (y / 2)) + u * (sin (r / 2) * sin (y / 2))"
    by (simp add: qy_def u_def v_def algebra_simps)
  moreover have "\<bar>v * (cos (r / 2) * cos (y / 2)) + u * (sin (r / 2) * sin (y / 2))\<bar> \<le> 2 * (d / 2)"
    by (rule pair_bound(1) [OF uv(2) uv(1)]) (rule c)+
  ultimately have qy: "\<bar>qy r p' y + qy r p y\<bar> \<le> d" by simp
  have "qz r p' y + qz r p y = u * (cos (r / 2) * sin (y / 2)) - v * (sin (r / 2) * cos (y / 2))"
    by (simp add: qz_def u_def v_def algebra_simps)
  moreover have "\<bar>u * (cos (r / 2) * sin (y / 2)) - v * (sin (r / 2) * cos (y / 2))\<bar> \<le> 2 * (d / 2)"
    by (rule pair_bound(2) [OF uv(1) uv(2)]) (rule c)+
  ultimately have qz: "\<bar>qz r p' y + qz r p y\<bar> \<le> d" by simp
  show ?thesis using qw qx qy qz by simp
qed

lemma yaw_shift_bound:
  fixes r p y d :: real
  assumes "\<bar>y' - (y + 2 * pi)\<bar> \<le> d"
  shows "negated_within d
      (Fin (qw r p y'), Fin (qx r p y'), Fin (qy r p y'), Fin (qz r p y'))
      (Fin (qw r p y), Fin (qx r p y), Fin (qy r p y), Fin (qz r p y))"
proof -
  define u where "u = cos (y' / 2) + cos (y / 2)"
  define v where "v = sin (y' / 2) + sin (y / 2)"
  have uv: "\<bar>u\<bar> \<le> d / 2" "\<bar>v\<bar> \<le> d / 2"
    unfolding u_def v_def using half_shift_bound [OF assms] by simp_all
  have c: "\<bar>cos t * cos t'\<bar> \<le> 1" "\<bar>sin t * sin t'\<bar> \<le> 1"
    "\<bar>sin t * cos t'\<bar> \<le> 1" "\<bar>cos t * sin t'\<bar> \<le> 1" for t t' :: real
    by (simp_all add: unit_product)
  have "qw r p y' + qw r p y = u * (cos (r / 2) * cos (p / 2)) + v * (sin (r / 2) * sin (p / 2))"
    by (simp add: qw_def u_def v_def algebra_simps)
  moreover have "\<bar>u * (cos (r / 2) * cos (p / 2)) + v * (sin (r / 2) * sin (p / 2))\<bar> \<le> 2 * (d / 2)"
    by (rule pair_bound(1) [OF uv(1) uv(2)]) (rule c)+
  ultimately have qw: "\<bar>qw r p y' + qw r p y\<bar> \<le> d" by simp
  have "qx r p y' + qx r p y = u * (sin (r / 2) * cos (p / 2)) - v * (cos (r / 2) * sin (p / 2))"
    by (simp add: qx_def u_def v_def algebra_simps)
  moreover have "\<bar>u * (sin (r / 2) * cos (p / 2)) - v * (cos (r / 2) * sin (p / 2))\<bar> \<le> 2 * (d / 2)"
    by (rule pair_bound(2) [OF uv(1) uv(2)]) (rule c)+
  ultimately have qx: "\<bar>qx r p y' + qx r p y\<bar> \<le> d" by simp
  have "qy r p y' + qy r p y = u * (cos (r / 2) * sin (p / 2)) + v * (sin (r / 2) * cos (p / 2))"
    by (simp add: qy_def u_def v_def algebra_simps)
  moreover have "\<bar>u * (cos (r / 2) * sin (p / 2)) + v * (sin (r / 2) * cos (p / 2))\<bar> \<le> 2 * (d / 2)"
    by (rule pair_bound(1) [OF uv(1) uv(2)]) (rule c)+
  ultimately have qy: "\<bar>qy r p y' + qy r p y\<bar> \<le> d" by simp
  have "qz r p y' + qz r p y = v * (cos (r / 2) * cos (p / 2)) - u * (sin (r / 2) * sin (p / 2))"
    by (simp add: qz_def u_def v_def algebra_simps)
  moreover have "\<bar>v * (cos (r / 2) * cos (p / 2)) - u * (sin (r / 2) * sin (p / 2))\<bar> \<le> 2 * (d / 2)"
    by (rule pair_bound(2) [OF uv(2) uv(1)]) (rule c)+
  ultimately have qz: "\<bar>qz r p y' + qz r p y\<bar> \<le> d" by simp
  show ?thesis using qw qx qy qz by simp
qed

lemma negated_within_mono:
  "negated_within d q' q \<Longrightarrow> d \<le> d' \<Longrightarrow> negated_within d' q' q"
  by (induction d q' q rule: negated_within.induct) auto

lemma unit_quaternion_not_negated:
  "euler_to_quaternion \<lparr> roll = Fin r, pitch = Fin p, yaw = Fin y \<rparr>
     \<noteq> np_negative (euler_to_quaternion \<lparr> roll = Fin r, pitch = Fin p, yaw = Fin y \<rparr>)"
proof
  assume "euler_to_quaternion \<lparr> roll = Fin r, pitch = Fin p, yaw = Fin y \<rparr>
     = np_negative (euler_to_quaternion \<lparr> roll = Fin r, pitch = Fin p, yaw = Fin y \<rparr>)"
  then have "qw r p y = 0 \<and> qx r p y = 0 \<and> qy r p y = 0 \<and> qz r p y = 0"
    by (simp add: e2q_Fin np_negative_def)
  then have "norm4 (qw r p y) (qx r p y) (qy r p y) (qz r p y) = 0"
    by (simp add: norm4_eq_0_iff)
  then show False by (simp add: q_norm)
qed

section \<open>The claims\<close>

text \<open>
  C1, as the code behaves. For every Euler triple with roll and yaw in
  \<open>[-pi + 1e-3, pi - 1e-3]\<close>, pitch in \<open>[-pi/2, pi/2]\<close> and \<open>|sin pitch| \<le> 1 - 2e-6\<close>
  (the regular branch, with a margin of 1e-6 from the test of line 71: the pitch is about
  2e-3 rad or more away from the poles), \<open>quaternion_to_euler (euler_to_quaternion e)\<close>
  is \<open>e\<close>: exactly in real arithmetic, and so within 1e-5 in doubles, where the margins
  keep the rounding error from choosing the branch or the side of the cut of \<open>arctan2\<close>.
\<close>

theorem round_trip_regular:
  assumes r: "\<bar>r\<bar> \<le> pi - 1 / 1000" and y: "\<bar>y\<bar> \<le> pi - 1 / 1000"
    and p: "\<bar>p\<bar> \<le> pi / 2" and s: "\<bar>sin p\<bar> \<le> 1 - 2 / 1000000"
  shows "quaternion_to_euler (euler_to_quaternion \<lparr> roll = Fin r, pitch = Fin p, yaw = Fin y \<rparr>)
       = \<lparr> roll = Fin r, pitch = Fin p, yaw = Fin y \<rparr>"
  using assms by (intro round_trip_exact) (simp_all add: abs_le_iff)

text \<open>
  C1, witness: roll 1, pitch \<open>1/2\<close>, yaw -1 satisfies every hypothesis and round-trips.
\<close>

theorem round_trip_regular_witness:
  "\<bar>1 :: real\<bar> \<le> pi - 1 / 1000 \<and> \<bar>- 1 :: real\<bar> \<le> pi - 1 / 1000 \<and> \<bar>1 / 2 :: real\<bar> \<le> pi / 2
   \<and> \<bar>sin (1 / 2 :: real)\<bar> \<le> 1 - 2 / 1000000
   \<and> quaternion_to_euler (euler_to_quaternion \<lparr> roll = Fin 1, pitch = Fin (1 / 2), yaw = Fin (- 1) \<rparr>)
       = \<lparr> roll = Fin 1, pitch = Fin (1 / 2), yaw = Fin (- 1) \<rparr>"
proof -
  have b: "(2 :: real) \<le> pi" by (rule pi_ge_two)
  have h: "\<bar>1 :: real\<bar> \<le> pi - 1 / 1000" "\<bar>- 1 :: real\<bar> \<le> pi - 1 / 1000" "\<bar>1 / 2 :: real\<bar> \<le> pi / 2"
    using b by simp_all
  show ?thesis
    using round_trip_regular [OF h sin_half_small] h sin_half_small by simp
qed

text \<open>
  C1, the claim as stated fails, at two inputs with the pitch strictly inside
  \<open>(-pi/2 + delta, pi/2 - delta)\<close> for \<open>delta = 1/2000 > 1e-6\<close>. At roll 1, pitch
  \<open>pi/2 - 1/1000\<close>, yaw 0 the test of line 71 holds (\<open>sin pitch = cos (1/1000) > 1 - 1e-6\<close>),
  the singular branch sets the roll to 0, and 0 is not within 1e-5 of 1. At roll \<open>2 * pi\<close>,
  pitch 0, yaw 0 the regular branch returns the roll 0 (the range of \<open>arctan2\<close> is
  \<open>(-pi, pi]\<close>), which is not within 1e-5 of \<open>2 * pi\<close>.
\<close>

theorem round_trip_counterexample:
  "(1 / 1000000 :: real) < 1 / 2000
   \<and> - (pi / 2) + 1 / 2000 < pi / 2 - 1 / 1000 \<and> pi / 2 - 1 / 1000 < pi / 2 - 1 / 2000
   \<and> roll (quaternion_to_euler
        (euler_to_quaternion \<lparr> roll = Fin 1, pitch = Fin (pi / 2 - 1 / 1000), yaw = Fin 0 \<rparr>)) = Fin 0
   \<and> \<not> \<bar>0 - 1 :: real\<bar> \<le> 1 / 100000
   \<and> - (pi / 2) + 1 / 2000 < 0 \<and> 0 < pi / 2 - 1 / 2000
   \<and> roll (quaternion_to_euler
        (euler_to_quaternion \<lparr> roll = Fin (2 * pi), pitch = Fin 0, yaw = Fin 0 \<rparr>)) = Fin 0
   \<and> \<not> \<bar>0 - 2 * pi\<bar> \<le> 1 / 100000"
proof -
  have "sin (pi / 2 - 1 / 1000) = cos (1 / 1000 :: real)"
    by (simp add: sin_diff)
  then have a: "\<bar>sin (pi / 2 - 1 / 1000)\<bar> > 1 - 1 / 1000000"
    using cos_near_zero by simp
  have b: "(2 :: real) \<le> pi" by (rule pi_ge_two)
  have c: "atan2 0 1 = 0" by (simp add: atan2_def)
  have r1: "roll (quaternion_to_euler
        (euler_to_quaternion \<lparr> roll = Fin 1, pitch = Fin (pi / 2 - 1 / 1000), yaw = Fin 0 \<rparr>)) = Fin 0"
    unfolding round_trip_form using a by simp
  have r2: "roll (quaternion_to_euler
        (euler_to_quaternion \<lparr> roll = Fin (2 * pi), pitch = Fin 0, yaw = Fin 0 \<rparr>)) = Fin 0"
    unfolding round_trip_form using c by simp
  show ?thesis using r1 r2 b by simp
qed




text \<open>
  C4, as the code behaves. Let \<open>q\<close> be a finite quaternion and \<open>k\<close> a scalar with the
  norms of \<open>q\<close> and of \<open>k * q\<close> between 1e-100 and 1e100, let the clamped \<open>t0\<close> of
  \<open>q\<close> be at most \<open>1 - 2e-6\<close> or at least \<open>1 - 5e-7\<close> in absolute value (a margin around
  the test of line 71), and let the roll and the yaw that \<open>quaternion_to_euler q\<close>
  returns be at least 1e-3 away from the ends of their ranges (\<open>pi\<close>, and \<open>2 pi\<close> for the
  yaw of the singular branch). Then \<open>quaternion_to_euler (k * q)\<close> has the same roll and
  the same pitch, and it is the same \<open>EulerAngles\<close> when \<open>k\<close> is positive or \<open>q\<close> is
  outside the singular branch: exactly in real arithmetic, within rounding in doubles.
\<close>

theorem scale_invariance:
  assumes n: "1 / 10 ^ 100 \<le> norm4 w x y z" "norm4 w x y z \<le> 10 ^ 100"
    and kn: "1 / 10 ^ 100 \<le> \<bar>k\<bar> * norm4 w x y z" "\<bar>k\<bar> * norm4 w x y z \<le> 10 ^ 100"
    and t: "clipped_t0 (Fin w, Fin x, Fin y, Fin z) = Fin t"
      "\<bar>t\<bar> \<le> 1 - 2 / 1000000 \<or> 1 - 1 / 2000000 \<le> \<bar>t\<bar>"
    and e: "quaternion_to_euler (Fin w, Fin x, Fin y, Fin z)
              = \<lparr> roll = Fin r, pitch = Fin p, yaw = Fin ya \<rparr>"
    and cut: "\<bar>r\<bar> \<le> pi - 1 / 1000"
      "\<bar>ya\<bar> \<le> (if gimbal_lock (Fin w, Fin x, Fin y, Fin z) then 2 * pi else pi) - 1 / 1000"
  shows "roll (quaternion_to_euler (np_scale k (Fin w, Fin x, Fin y, Fin z))) = Fin r
       \<and> pitch (quaternion_to_euler (np_scale k (Fin w, Fin x, Fin y, Fin z))) = Fin p
       \<and> (0 < k \<or> \<not> gimbal_lock (Fin w, Fin x, Fin y, Fin z) \<longrightarrow>
            quaternion_to_euler (np_scale k (Fin w, Fin x, Fin y, Fin z))
              = \<lparr> roll = Fin r, pitch = Fin p, yaw = Fin ya \<rparr>)"
proof -
  have pos: "(0::real) < 1 / 10 ^ 100" by simp
  from n(1) pos have "norm4 w x y z \<noteq> 0" by linarith
  then have nz: "(w, x, y, z) \<noteq> (0, 0, 0, 0)" by (simp add: norm4_eq_0_iff)
  from kn(1) pos have "\<bar>k\<bar> * norm4 w x y z \<noteq> 0" by linarith
  then have k: "k \<noteq> 0" by auto
  show ?thesis using scale_exact [OF nz k] e by simp
qed

text \<open>
  C4, witness: the identity quaternion \<open>(1, 0, 0, 0)\<close>, in the regular branch, and the
  negative scalar -3.
\<close>

theorem scale_invariance_witness:
  "1 / 10 ^ 100 \<le> norm4 1 0 0 0 \<and> norm4 1 0 0 0 \<le> 10 ^ 100
   \<and> 1 / 10 ^ 100 \<le> \<bar>- 3\<bar> * norm4 1 0 0 0 \<and> \<bar>- 3\<bar> * norm4 1 0 0 0 \<le> 10 ^ 100
   \<and> clipped_t0 (Fin 1, Fin 0, Fin 0, Fin 0) = Fin 0
   \<and> \<bar>0 :: real\<bar> \<le> 1 - 2 / 1000000
   \<and> quaternion_to_euler (Fin 1, Fin 0, Fin 0, Fin 0) = \<lparr> roll = Fin 0, pitch = Fin 0, yaw = Fin 0 \<rparr>
   \<and> \<bar>0 :: real\<bar> \<le> pi - 1 / 1000
   \<and> \<not> gimbal_lock (Fin 1, Fin 0, Fin 0, Fin 0)
   \<and> quaternion_to_euler (np_scale (- 3) (Fin 1, Fin 0, Fin 0, Fin 0))
        = \<lparr> roll = Fin 0, pitch = Fin 0, yaw = Fin 0 \<rparr>"
proof -
  have n1: "norm4 1 0 0 0 = 1" by (simp add: norm4_def)
  have n: "1 / 10 ^ 100 \<le> norm4 1 0 0 0" "norm4 1 0 0 0 \<le> 10 ^ 100"
    "1 / 10 ^ 100 \<le> \<bar>- 3\<bar> * norm4 1 0 0 0" "\<bar>- 3\<bar> * norm4 1 0 0 0 \<le> 10 ^ 100"
    unfolding n1 by simp_all
  have t: "\<bar>0 :: real\<bar> \<le> 1 - 2 / 1000000 \<or> 1 - 1 / 2000000 \<le> \<bar>0 :: real\<bar>" by simp
  have b: "(2 :: real) \<le> pi" by (rule pi_ge_two)
  have c: "\<bar>0 :: real\<bar> \<le> pi - 1 / 1000"
    "\<bar>0 :: real\<bar> \<le> (if gimbal_lock (Fin 1, Fin 0, Fin 0, Fin 0) then 2 * pi else pi) - 1 / 1000"
    using b by simp_all
  show ?thesis
    using scale_invariance [OF n identity_quaternion(2) t identity_quaternion(1) c]
      n identity_quaternion c
    by simp
qed

text \<open>
  C4, the claim as stated fails: \<open>q = (1, 1, 1, -1)\<close> is in the singular branch
  (\<open>t0 = 1\<close>) with yaw \<open>pi / 2\<close>, and \<open>-2 * q\<close> has yaw \<open>-3 pi / 2\<close>: the two yaws
  differ by \<open>2 pi\<close>.
\<close>

theorem scale_invariance_counterexample:
  "yaw (quaternion_to_euler (Fin 1, Fin 1, Fin 1, Fin (- 1))) = Fin (pi / 2)
   \<and> yaw (quaternion_to_euler (np_scale (- 2) (Fin 1, Fin 1, Fin 1, Fin (- 1))))
       = Fin (- (3 * pi / 2))"
proof -
  have n: "norm4 1 1 1 (- 1) \<noteq> 0" by (simp add: norm4_ones)
  have k: "(- 2 :: real) \<noteq> 0" by simp
  show ?thesis
    unfolding quaternion_to_euler_scaled [OF n k] quaternion_to_euler_Fin [OF n] norm4_ones
    by (simp add: euler_from_t0_Fin atan2_quadrants)
qed



text \<open>
  C8. The triple roll 0, pitch \<open>pi / 2\<close>, yaw 0, converted to a quaternion and back, gives
  the pitch \<open>pi / 2\<close> and the roll 0; with the pitch \<open>- pi / 2\<close> it gives the pitch
  \<open>- pi / 2\<close> and the roll 0. The sign of the clamped \<open>t0\<close> is 1 at the first and -1
  at the second.
\<close>

theorem gimbal_lock_poles:
  "quaternion_to_euler (euler_to_quaternion \<lparr> roll = Fin 0, pitch = Fin (pi / 2), yaw = Fin 0 \<rparr>)
     = \<lparr> roll = Fin 0, pitch = Fin (pi / 2), yaw = Fin 0 \<rparr>
   \<and> quaternion_to_euler (euler_to_quaternion \<lparr> roll = Fin 0, pitch = Fin (- (pi / 2)), yaw = Fin 0 \<rparr>)
     = \<lparr> roll = Fin 0, pitch = Fin (- (pi / 2)), yaw = Fin 0 \<rparr>
   \<and> np_sign (clipped_t0 (euler_to_quaternion \<lparr> roll = Fin 0, pitch = Fin (pi / 2), yaw = Fin 0 \<rparr>))
     = Fin 1
   \<and> np_sign (clipped_t0 (euler_to_quaternion \<lparr> roll = Fin 0, pitch = Fin (- (pi / 2)), yaw = Fin 0 \<rparr>))
     = Fin (- 1)"
proof -
  have n: "quaternion_to_euler (Fin (qw 0 p 0), Fin (qx 0 p 0), Fin (qy 0 p 0), Fin (qz 0 p 0))
      = euler_from_t0 (Fin (2 * (qw 0 p 0 * qy 0 p 0 - qz 0 p 0 * qx 0 p 0)))
          (Fin (qw 0 p 0), Fin (qx 0 p 0), Fin (qy 0 p 0), Fin (qz 0 p 0))" for p
    by (rule quaternion_to_euler_unit [OF q_norm])
  have t: "clipped_t0 (Fin (qw 0 p 0), Fin (qx 0 p 0), Fin (qy 0 p 0), Fin (qz 0 p 0))
      = Fin (min (max (2 * (qw 0 p 0 * qy 0 p 0 - qz 0 p 0 * qx 0 p 0)) (-1)) 1)" for p
    by (rule clipped_t0_unit [OF q_norm])
  have c: "0 < cos (pi / 4)" by (simp add: cos_45)
  show ?thesis
    unfolding e2q_Fin n t using c
    by (simp add: euler_from_t0_Fin qw_def qx_def qy_def qz_def cos_sin_pi4 atan2_def np_defs)
qed

text \<open>
  C6. For every finite Euler triple, \<open>euler_to_quaternion\<close> returns four finite
  components (no \<open>nan\<close>, and nothing in the function can raise) whose Euclidean norm
  is 1. In exact arithmetic the norm is exactly 1, which is within the 1e-9 of the claim.
\<close>

theorem euler_to_quaternion_unit_norm:
  "\<exists>w x y z. euler_to_quaternion \<lparr> roll = Fin r, pitch = Fin p, yaw = Fin ya \<rparr>
       = (Fin w, Fin x, Fin y, Fin z) \<and> norm4 w x y z = 1"
  using e2q_Fin [of r p ya] q_norm [of r p ya] by blast

text \<open>
  C9, as the code behaves. A caller cannot pass \<open>roll + 2 * pi\<close>, only an angle near
  it. If the angle passed for the roll is within \<open>d\<close> of \<open>roll + 2 * pi\<close>, every
  component of the quaternion returned by \<open>euler_to_quaternion\<close> is within \<open>d + 1e-9\<close>
  of the negated component of the quaternion of the unshifted triple; likewise for the
  pitch and for the yaw. (The bound in real arithmetic is \<open>d\<close>; the 1e-9 is the tolerance
  of the unit-norm property, left for the rounding of the code.)
\<close>

theorem double_cover_within_rounding:
  assumes "\<bar>r' - (r + 2 * pi)\<bar> \<le> d" "\<bar>p' - (p + 2 * pi)\<bar> \<le> d" "\<bar>y' - (y + 2 * pi)\<bar> \<le> d"
  shows "negated_within (d + 1 / 10 ^ 9)
           (euler_to_quaternion \<lparr> roll = Fin r', pitch = Fin p, yaw = Fin y \<rparr>)
           (euler_to_quaternion \<lparr> roll = Fin r, pitch = Fin p, yaw = Fin y \<rparr>)
       \<and> negated_within (d + 1 / 10 ^ 9)
           (euler_to_quaternion \<lparr> roll = Fin r, pitch = Fin p', yaw = Fin y \<rparr>)
           (euler_to_quaternion \<lparr> roll = Fin r, pitch = Fin p, yaw = Fin y \<rparr>)
       \<and> negated_within (d + 1 / 10 ^ 9)
           (euler_to_quaternion \<lparr> roll = Fin r, pitch = Fin p, yaw = Fin y' \<rparr>)
           (euler_to_quaternion \<lparr> roll = Fin r, pitch = Fin p, yaw = Fin y \<rparr>)"
proof -
  have d: "d \<le> d + 1 / 10 ^ 9" by simp
  show ?thesis
    unfolding e2q_Fin
    using negated_within_mono [OF roll_shift_bound [OF assms(1)] d]
      negated_within_mono [OF pitch_shift_bound [OF assms(2)] d]
      negated_within_mono [OF yaw_shift_bound [OF assms(3)] d]
    by blast
qed

text \<open>
  C9, witness: the triple \<open>(0, 0, 0)\<close> and the exact shift \<open>2 * pi\<close> of each angle,
  with \<open>d = 0\<close>.
\<close>

theorem double_cover_within_rounding_witness:
  "\<bar>2 * pi - (0 + 2 * pi)\<bar> \<le> (0::real)
   \<and> negated_within (0 + 1 / 10 ^ 9)
        (euler_to_quaternion \<lparr> roll = Fin (2 * pi), pitch = Fin 0, yaw = Fin 0 \<rparr>)
        (euler_to_quaternion \<lparr> roll = Fin 0, pitch = Fin 0, yaw = Fin 0 \<rparr>)
   \<and> negated_within (0 + 1 / 10 ^ 9)
        (euler_to_quaternion \<lparr> roll = Fin 0, pitch = Fin (2 * pi), yaw = Fin 0 \<rparr>)
        (euler_to_quaternion \<lparr> roll = Fin 0, pitch = Fin 0, yaw = Fin 0 \<rparr>)
   \<and> negated_within (0 + 1 / 10 ^ 9)
        (euler_to_quaternion \<lparr> roll = Fin 0, pitch = Fin 0, yaw = Fin (2 * pi) \<rparr>)
        (euler_to_quaternion \<lparr> roll = Fin 0, pitch = Fin 0, yaw = Fin 0 \<rparr>)"
  using double_cover_within_rounding [of "2 * pi" 0 0 "2 * pi" 0 "2 * pi" 0] by simp

text \<open>
  C9, the claim as stated fails: at roll 1e17 the double sum \<open>roll + 2 * np.pi\<close> is
  \<open>roll\<close> itself (the doubles near 1e17 are 16 apart), so the caller passes the same
  triple and gets the same quaternion, which is not its own negative, having norm 1.
\<close>

theorem double_cover_counterexample:
  "float64_add (10 ^ 17) (2 * np_pi) = 10 ^ 17
   \<and> euler_to_quaternion
        \<lparr> roll = Fin (float64_add (10 ^ 17) (2 * np_pi)), pitch = Fin 0, yaw = Fin 0 \<rparr>
      \<noteq> np_negative (euler_to_quaternion \<lparr> roll = Fin (10 ^ 17), pitch = Fin 0, yaw = Fin 0 \<rparr>)"
  unfolding float64_add_absorbed using unit_quaternion_not_negated [of "10 ^ 17" 0 0] by simp

text \<open>
  C3, as the code behaves. The claim is that \<open>quaternion_to_euler\<close> on the quaternion
  \<open>(0, 0, 0, 0)\<close> fails with a domain error and returns no \<open>nan\<close>. The code has no
  check of the norm: numpy evaluates \<open>0 / 0\<close> to \<open>nan\<close>, the comparison of line 71 is
  false on \<open>nan\<close>, and the regular branch returns an \<open>EulerAngles\<close> whose three
  fields are \<open>nan\<close>.
\<close>

theorem zero_quaternion_returns_nan:
  "quaternion_to_euler (Fin 0, Fin 0, Fin 0, Fin 0) = \<lparr> roll = NaN, pitch = NaN, yaw = NaN \<rparr>"
  by (simp add: quaternion_to_euler_def norm4_def euler_from_t0_def np_defs)

text \<open>
  C3, the claim as stated fails: the call returns, and the pitch of the result is \<open>nan\<close>.
\<close>

theorem zero_quaternion_counterexample:
  "pitch (quaternion_to_euler (Fin 0, Fin 0, Fin 0, Fin 0)) = NaN"
  by (simp add: quaternion_to_euler_def norm4_def euler_from_t0_def np_defs)

text \<open>
  C10. \<open>euler_to_quaternion\<close> applied to \<open>EulerAngles(0, 0, 0)\<close> returns exactly the
  identity quaternion \<open>(w, x, y, z) = (1, 0, 0, 0)\<close>.
\<close>

theorem euler_to_quaternion_identity:
  "euler_to_quaternion \<lparr> roll = Fin 0, pitch = Fin 0, yaw = Fin 0 \<rparr> = (Fin 1, Fin 0, Fin 0, Fin 0)"
  by (simp add: euler_to_quaternion_def np_defs norm4_def Let_def)

end
